theory Spec2Isabelle
  imports Complex_Main "HOL-Library.AList"
begin

section \<open>Python values and exceptions\<close>

text \<open>
  The values that flow through \<^verbatim>\<open>monitoring_service/messages/message.py\<close> are the
  values of Python's \<^verbatim>\<open>json\<close> module: \<^verbatim>\<open>None\<close>, booleans, integers, floats, strings,
  lists and dictionaries with string keys. A dictionary is an association list, so that
  the insertion order (which \<^verbatim>\<open>json.dumps\<close> follows) is part of the value. Floats are
  only carried around (the timestamp), never computed with.
\<close>

datatype json =
    JNull
  | JBool bool
  | JInt int
  | JFloat real
  | JStr string
  | JArr "json list"
  | JObj "(string \<times> json) list"

text \<open>
  Every \<^verbatim>\<open>raise\<close> and every failing \<^verbatim>\<open>assert\<close> is a value. \<open>SchemaError\<close> is the
  exception of \<^verbatim>\<open>jsonschema.validate\<close>, \<open>JSONDecodeError\<close> the one of \<^verbatim>\<open>json.loads\<close>,
  \<open>KeyError\<close> and \<open>TypeError\<close> those of subscripting, \<open>UnknownTypeError\<close> the one of the
  type registry, \<open>OtherError\<close> any other exception, by its name. Assertions are taken
  as enabled.
\<close>

datatype error =
    AssertionError
  | NotImplementedError
  | KeyError
  | TypeError
  | JSONDecodeError
  | SchemaError
  | UnknownTypeError
  | OtherError string

fun isinstance_str :: "json \<Rightarrow> bool" where
  "isinstance_str (JStr s) = True"
| "isinstance_str _ = False"

text \<open>\<^verbatim>\<open>d[k]\<close>: a missing key raises KeyError, a value that is no dictionary TypeError.\<close>

fun getitem :: "json \<Rightarrow> string \<Rightarrow> error + json" where
  "getitem (JObj kvs) k = (case map_of kvs k of None \<Rightarrow> Inl KeyError | Some v \<Rightarrow> Inr v)"
| "getitem _ k = Inl TypeError"

text \<open>\<^verbatim>\<open>d[k] = v\<close>: an existing key keeps its place, a new key goes to the end.\<close>

fun setitem :: "json \<Rightarrow> string \<Rightarrow> json \<Rightarrow> error + json" where
  "setitem (JObj kvs) k v = Inr (JObj (AList.update k v kvs))"
| "setitem _ k v = Inl TypeError"

section \<open>The class Message\<close>

text \<open>
  An instance has the attribute \<^verbatim>\<open>_type\<close> (here \<open>msg_type\<close>) and, once
  \<^verbatim>\<open>Message.deserialize\<close> has attached it, the attribute \<^verbatim>\<open>header\<close>. The fields of a
  subclass are the extension of the record.
\<close>

record message =
  msg_type :: json
  header :: "json option"

definition Message_init :: message where
  "Message_init = \<lparr>msg_type = JNull, header = None\<rparr>"

definition serialize_data :: "'a message_scheme \<Rightarrow> error + json" where
  "serialize_data self = Inl NotImplementedError"

definition deserialize_from_json :: "json \<Rightarrow> error + 'a message_scheme" where
  "deserialize_from_json data = Inl NotImplementedError"

definition get_type :: "'a message_scheme \<Rightarrow> json" where
  "get_type self = msg_type self"

text \<open>The setter of the property \<^verbatim>\<open>type\<close>; the assertion reads \<^verbatim>\<open>self._type\<close>.\<close>

definition set_type :: "'a message_scheme \<Rightarrow> json \<Rightarrow> error + 'a message_scheme" where
  "set_type self v =
     (if isinstance_str (msg_type self) then Inr (self\<lparr>msg_type := v\<rparr>)
      else Inl AssertionError)"

definition sign_data :: "'a message_scheme \<Rightarrow> string \<Rightarrow> string \<Rightarrow> string" where
  "sign_data self private_key data = ''0x1111111111111111111111111111111''"

text \<open>
  \<^verbatim>\<open>assemble_message\<close>. The methods it reaches through \<^verbatim>\<open>self\<close> are arguments: a
  subclass overrides \<^verbatim>\<open>serialize_data\<close>. \<open>now\<close> is the value \<^verbatim>\<open>time.time()\<close> returns.
  The dictionary display evaluates \<^verbatim>\<open>self.type\<close>, the clock and then
  \<^verbatim>\<open>self.serialize_data()\<close>, after the assertion.
\<close>

definition assemble_message ::
  "('a message_scheme \<Rightarrow> error + json) \<Rightarrow> real \<Rightarrow> 'a message_scheme \<Rightarrow> error + json" where
  "assemble_message serialize_data' now self =
     (if \<not> isinstance_str (get_type self) then Inl AssertionError
      else case serialize_data' self of
        Inl e \<Rightarrow> Inl e
      | Inr body \<Rightarrow>
          Inr (JObj [(''header'', JObj [(''type'', get_type self),
                                       (''timestamp'', JFloat now),
                                       (''sender'', JNull)]),
                     (''body'', body)]))"

text \<open>
  \<^verbatim>\<open>serialize_full\<close>. \<^verbatim>\<open>json.dumps\<close> is an argument, and so are the methods
  \<^verbatim>\<open>serialize_data\<close> and \<^verbatim>\<open>sign_data\<close>, which the source calls through \<^verbatim>\<open>self\<close>.
  \<^verbatim>\<open>privkey_to_addr\<close> of \<^verbatim>\<open>monitoring_service.utils\<close> is an argument too: any function
  from a secret to an address, a string on the wire. The assignment
  \<^verbatim>\<open>msg_data['header']['sender'] = ...\<close> changes the header dictionary that \<^verbatim>\<open>msg_data\<close>
  holds, so the changed header is written back into \<open>msg_data\<close>.
\<close>

definition serialize_full ::
  "('a message_scheme \<Rightarrow> error + json) \<Rightarrow> ('a message_scheme \<Rightarrow> string \<Rightarrow> string \<Rightarrow> string) \<Rightarrow>
   (string \<Rightarrow> string) \<Rightarrow> (json \<Rightarrow> string) \<Rightarrow> real \<Rightarrow>
   'a message_scheme \<Rightarrow> string \<Rightarrow> error + string" where
  "serialize_full serialize_data' sign_data' privkey_to_addr dumps now self private_key =
     (case assemble_message serialize_data' now self of
        Inl e \<Rightarrow> Inl e
      | Inr msg_data \<Rightarrow>
          (case getitem msg_data ''header'' of
             Inl e \<Rightarrow> Inl e
           | Inr hdr \<Rightarrow>
               (case setitem hdr ''sender'' (JStr (privkey_to_addr private_key)) of
                  Inl e \<Rightarrow> Inl e
                | Inr hdr' \<Rightarrow>
                    (case setitem msg_data ''header'' hdr' of
                       Inl e \<Rightarrow> Inl e
                     | Inr msg_data' \<Rightarrow>
                         (let data = dumps msg_data' in
                          Inr (dumps (JObj [(''signature'', JStr (sign_data' self private_key data)),
                                            (''data'', JStr data)])))))))"

section \<open>Schema validation\<close>

text \<open>
  Modelled from the spec: \<^verbatim>\<open>monitoring_service.json_schema.ENVELOPE_SCHEMA\<close> is not
  part of the sources at hand. The spec (4.1) has the validator check that the
  top-level value is an object with exactly the keys \<^verbatim>\<open>signature\<close> and \<^verbatim>\<open>data\<close>, both
  strings, and fail with a SchemaError otherwise. A schema is the list of its keys with
  the primitive type of each; \<open>validate\<close> is \<^verbatim>\<open>jsonschema.validate\<close> on such a schema.
\<close>

datatype prim = t_null | t_boolean | t_integer | t_number | t_string | t_array | t_object

fun has_type :: "json \<Rightarrow> prim \<Rightarrow> bool" where
  "has_type JNull t = (t = t_null)"
| "has_type (JBool b) t = (t = t_boolean)"
| "has_type (JInt i) t = (t = t_integer \<or> t = t_number)"
| "has_type (JFloat r) t = (t = t_number)"
| "has_type (JStr s) t = (t = t_string)"
| "has_type (JArr xs) t = (t = t_array)"
| "has_type (JObj kvs) t = (t = t_object)"

type_synonym schema = "(string \<times> prim) list"

definition ENVELOPE_SCHEMA :: schema where
  "ENVELOPE_SCHEMA = [(''signature'', t_string), (''data'', t_string)]"

definition key_ok :: "(string \<times> json) list \<Rightarrow> string \<times> prim \<Rightarrow> bool" where
  "key_ok kvs p = (case map_of kvs (fst p) of None \<Rightarrow> False | Some v \<Rightarrow> has_type v (snd p))"

definition key_known :: "schema \<Rightarrow> string \<times> json \<Rightarrow> bool" where
  "key_known sch kv = (fst kv \<in> set (map fst sch))"

fun validate :: "json \<Rightarrow> schema \<Rightarrow> error + unit" where
  "validate (JObj kvs) sch =
     (if list_all (key_ok kvs) sch \<and> list_all (key_known sch) kvs then Inr ()
      else Inl SchemaError)"
| "validate _ sch = Inl SchemaError"

section \<open>The type registry\<close>

text \<open>
  Modelled from the spec: \<^verbatim>\<open>monitoring_service.messages.deserializer.deserialize\<close> is
  not part of the sources at hand. The spec (4.3, 4.5) has it resolve \<^verbatim>\<open>header.type\<close> in
  the type registry, a table from type tags to decoders with at most one decoder for a
  tag, fail with UnknownTypeError on a miss, and otherwise invoke the decoder on
  \<^verbatim>\<open>body\<close>. A tag that is no string is in no registry. What a decoder raises is its own.
\<close>

type_synonym 'a decoder = "json \<Rightarrow> error + 'a message_scheme"

fun resolve :: "(string \<rightharpoonup> 'a decoder) \<Rightarrow> json \<Rightarrow> error + 'a decoder" where
  "resolve registry (JStr tag) =
     (case registry tag of None \<Rightarrow> Inl UnknownTypeError | Some decoder \<Rightarrow> Inr decoder)"
| "resolve registry _ = Inl UnknownTypeError"

definition deserialize :: "(string \<rightharpoonup> 'a decoder) \<Rightarrow> json \<Rightarrow> error + 'a message_scheme" where
  "deserialize registry message =
     (case getitem message ''header'' of
        Inl e \<Rightarrow> Inl e
      | Inr hdr \<Rightarrow>
          (case getitem hdr ''type'' of
             Inl e \<Rightarrow> Inl e
           | Inr tag \<Rightarrow>
               (case resolve registry tag of
                  Inl e \<Rightarrow> Inl e
                | Inr decoder \<Rightarrow>
                    (case getitem message ''body'' of
                       Inl e \<Rightarrow> Inl e
                     | Inr body \<Rightarrow> decoder body))))"

section \<open>Disassembling an envelope\<close>

text \<open>\<^verbatim>\<open>json.loads\<close> on a value: anything but a string is a TypeError.\<close>

fun loads_value :: "(string \<Rightarrow> error + json) \<Rightarrow> json \<Rightarrow> error + json" where
  "loads_value loads (JStr s) = loads s"
| "loads_value loads _ = Inl TypeError"

text \<open>
  \<^verbatim>\<open>Message.deserialize\<close>. The argument is a string or an already parsed value;
  \<^verbatim>\<open>json.loads\<close> and the function \<^verbatim>\<open>deserialize\<close> of the deserializer module are
  arguments. The statements run in the order of the source: parse the outer string,
  validate, parse \<^verbatim>\<open>data\<close>, dispatch, attach the header.
\<close>

definition Message_deserialize ::
  "(string \<Rightarrow> error + json) \<Rightarrow> (json \<Rightarrow> error + 'a message_scheme) \<Rightarrow> json \<Rightarrow>
   error + 'a message_scheme" where
  "Message_deserialize loads deserialize' data =
     (case (if isinstance_str data then loads_value loads data else Inr data) of
        Inl e \<Rightarrow> Inl e
      | Inr json_message \<Rightarrow>
          (case validate json_message ENVELOPE_SCHEMA of
             Inl e \<Rightarrow> Inl e
           | Inr u \<Rightarrow>
               (case getitem json_message ''data'' of
                  Inl e \<Rightarrow> Inl e
                | Inr d \<Rightarrow>
                    (case loads_value loads d of
                       Inl e \<Rightarrow> Inl e
                     | Inr json_data \<Rightarrow>
                         (case deserialize' json_data of
                            Inl e \<Rightarrow> Inl e
                          | Inr cls \<Rightarrow>
                              (case getitem json_data ''header'' of
                                 Inl e \<Rightarrow> Inl e
                               | Inr hdr \<Rightarrow> Inr (cls\<lparr>header := Some hdr\<rparr>)))))))"

section \<open>The wire format\<close>

text \<open>
  The two objects of the wire format as the spec writes them (section 6): the inner
  object \<^verbatim>\<open>{header: {type, timestamp, sender}, body}\<close> and the outer envelope
  \<^verbatim>\<open>{signature, data}\<close>. They are what the results of the code are compared with.
\<close>

definition spec_inner :: "json \<Rightarrow> real \<Rightarrow> json \<Rightarrow> json \<Rightarrow> json" where
  "spec_inner tag timestamp sender body =
     JObj [(''header'', JObj [(''type'', tag), (''timestamp'', JFloat timestamp),
                              (''sender'', sender)]),
           (''body'', body)]"

definition spec_envelope :: "string \<Rightarrow> string \<Rightarrow> json" where
  "spec_envelope signature data = JObj [(''signature'', JStr signature), (''data'', JStr data)]"

text \<open>
  What is needed of \<^verbatim>\<open>json.dumps\<close> and \<^verbatim>\<open>json.loads\<close>: parsing the text printed
  for a value gives the value back.
\<close>

definition roundtrips :: "(json \<Rightarrow> string) \<Rightarrow> (string \<Rightarrow> error + json) \<Rightarrow> json \<Rightarrow> bool" where
  "roundtrips dumps loads j = (loads (dumps j) = Inr j)"

text \<open>
  Modelled from the spec: no message variant is part of the sources at hand. The spec
  (sections 2 and 3) has each variant know how to produce its body fields and how to
  reconstruct itself from decoded body fields. \<open>reconstructs\<close> is that contract between
  the \<^verbatim>\<open>serialize_data\<close> of a variant and its decoder: from the body that
  \<^verbatim>\<open>serialize_data\<close> returns for any instance, the decoder makes an instance for which
  \<^verbatim>\<open>serialize_data\<close> returns that body again, whatever header the instance carries.
\<close>

definition reconstructs ::
  "('a message_scheme \<Rightarrow> error + json) \<Rightarrow> (json \<Rightarrow> error + 'a message_scheme) \<Rightarrow> bool" where
  "reconstructs serialize_data' decoder =
     (\<forall>x body. serialize_data' x = Inr body \<longrightarrow>
        (\<exists>m. decoder body = Inr m \<and> (\<forall>h. serialize_data' (m\<lparr>header := h\<rparr>) = Inr body)))"

section \<open>A concrete scenario\<close>

text \<open>
  Modelled from the spec: no message variant, no registry and no key is part of the
  sources at hand. The scenario is the one of the spec (section 8): a variant with the
  discriminant \<^verbatim>\<open>PathsRequest\<close> and the body fields \<^verbatim>\<open>source\<close> and \<^verbatim>\<open>target\<close>, a
  registry with that variant only, and an envelope of type \<^verbatim>\<open>Ping\<close>.
\<close>

record paths_request = message +
  source :: string
  target :: string

definition PathsRequest_serialize_data :: "paths_request \<Rightarrow> error + json" where
  "PathsRequest_serialize_data self =
     Inr (JObj [(''source'', JStr (source self)), (''target'', JStr (target self))])"

fun PathsRequest_of :: "json \<Rightarrow> json \<Rightarrow> error + paths_request" where
  "PathsRequest_of (JStr s) (JStr t) =
     Inr \<lparr>msg_type = JStr ''PathsRequest'', header = None, source = s, target = t\<rparr>"
| "PathsRequest_of _ _ = Inl TypeError"

definition PathsRequest_deserialize_from_json :: "json \<Rightarrow> error + paths_request" where
  "PathsRequest_deserialize_from_json data =
     (case getitem data ''source'' of
        Inl e \<Rightarrow> Inl e
      | Inr s \<Rightarrow>
          (case getitem data ''target'' of
             Inl e \<Rightarrow> Inl e
           | Inr t \<Rightarrow> PathsRequest_of s t))"

definition registry_ex :: "string \<rightharpoonup> (json \<Rightarrow> error + paths_request)" where
  "registry_ex = [''PathsRequest'' \<mapsto> PathsRequest_deserialize_from_json]"

definition request_ex :: paths_request where
  "request_ex = \<lparr>msg_type = JStr ''PathsRequest'', header = None,
                  source = ''0xAAAA'', target = ''0xBBBB''\<rparr>"

definition body_ex :: json where
  "body_ex = JObj [(''source'', JStr ''0xAAAA''), (''target'', JStr ''0xBBBB'')]"

definition now_ex :: real where
  "now_ex = 1541376000.5"

definition header_ex :: json where
  "header_ex = JObj [(''type'', JStr ''PathsRequest''), (''timestamp'', JFloat now_ex),
                     (''sender'', JStr ''0xCCCC'')]"

definition privkey_to_addr_ex :: "string \<Rightarrow> string" where
  "privkey_to_addr_ex private_key = ''0xCCCC''"

definition signature_ex :: string where
  "signature_ex = ''0x1111111111111111111111111111111''"

definition inner_ex :: json where
  "inner_ex = spec_inner (JStr ''PathsRequest'') now_ex (JStr ''0xCCCC'') body_ex"

definition ping_ex :: json where
  "ping_ex = spec_inner (JStr ''Ping'') now_ex (JStr ''0xCCCC'') (JObj [])"

text \<open>
  The texts that Python's \<^verbatim>\<open>json.dumps\<close> prints for the values of the scenario, and a
  \<^verbatim>\<open>dumps\<close> and a \<^verbatim>\<open>loads\<close> that know these texts only. In the text of an envelope the
  quotes of the inner text are escaped. \<open>sign_concat_ex\<close> is a signing method that
  returns the secret followed by the data, for the last envelope of the table.
\<close>

definition wire_inner_ex :: string where
  \<open>wire_inner_ex = ''{"header": {"type": "PathsRequest", "timestamp": 1541376000.5, "sender": "0xCCCC"}, "body": {"source": "0xAAAA", "target": "0xBBBB"}}''\<close>

definition wire_ping_ex :: string where
  \<open>wire_ping_ex = ''{"header": {"type": "Ping", "timestamp": 1541376000.5, "sender": "0xCCCC"}, "body": {}}''\<close>

definition wire_nosig_ex :: string where
  \<open>wire_nosig_ex = ''{"data": "x"}''\<close>

definition tampered_ex :: string where
  "tampered_ex = wire_inner_ex[0 := CHR ''['']"

fun escape :: "string \<Rightarrow> string" where
  "escape [] = []"
| "escape (c # cs) =
     (if c = CHR 0x22 \<or> c = CHR 0x5C then CHR 0x5C # c # escape cs else c # escape cs)"

definition wire_envelope :: "string \<Rightarrow> string \<Rightarrow> string" where
  \<open>wire_envelope signature data =
     ''{"signature": "'' @ escape signature @ ''", "data": "'' @ escape data @ ''"}''\<close>

definition sign_concat_ex :: "'a message_scheme \<Rightarrow> string \<Rightarrow> string \<Rightarrow> string" where
  "sign_concat_ex self private_key data = private_key @ data"

definition signature_concat_ex :: string where
  "signature_concat_ex = ''secret'' @ wire_inner_ex"

definition wire_table :: "(string \<times> json) list" where
  "wire_table =
     [(wire_inner_ex, inner_ex),
      (wire_ping_ex, ping_ex),
      (wire_envelope signature_ex wire_inner_ex, spec_envelope signature_ex wire_inner_ex),
      (wire_nosig_ex, JObj [(''data'', JStr ''x'')]),
      (wire_envelope signature_concat_ex wire_inner_ex,
         spec_envelope signature_concat_ex wire_inner_ex)]"

definition loads_ex :: "string \<Rightarrow> error + json" where
  "loads_ex s = (case map_of wire_table s of None \<Rightarrow> Inl JSONDecodeError | Some j \<Rightarrow> Inr j)"

definition dumps_ex :: "json \<Rightarrow> string" where
  "dumps_ex j = (case map_of (map (\<lambda>(s, j). (j, s)) wire_table) j of None \<Rightarrow> [] | Some s \<Rightarrow> s)"

section \<open>Auxiliary facts\<close>

lemma bind_Inr:
  "(case x of Inl e \<Rightarrow> Inl e | Inr v \<Rightarrow> f v) = Inr r \<longleftrightarrow> (\<exists>v. x = Inr v \<and> f v = Inr r)"
  by (cases x) auto

lemma loads_value_Inr:
  "loads_value loads v = Inr j \<longleftrightarrow> (\<exists>s. v = JStr s \<and> loads s = Inr j)"
  by (cases v) auto

lemma serialize_full_eq:
  assumes "msg_type self = JStr t" and "serialize_data' self = Inr body"
  shows "serialize_full serialize_data' sign_data' privkey_to_addr dumps now self private_key =
     Inr (dumps (spec_envelope
        (sign_data' self private_key
           (dumps (spec_inner (JStr t) now (JStr (privkey_to_addr private_key)) body)))
        (dumps (spec_inner (JStr t) now (JStr (privkey_to_addr private_key)) body))))"
  using assms
  by (simp add: serialize_full_def assemble_message_def get_type_def spec_inner_def
      spec_envelope_def Let_def)

lemma validate_envelope: "validate (spec_envelope sg d) ENVELOPE_SCHEMA = Inr ()"
  by (simp add: spec_envelope_def ENVELOPE_SCHEMA_def key_ok_def key_known_def)

lemma validate_Inr:
  "validate j ENVELOPE_SCHEMA = Inr u \<Longrightarrow>
     \<exists>kvs sg d. j = JObj kvs \<and> map_of kvs ''signature'' = Some (JStr sg)
                \<and> map_of kvs ''data'' = Some (JStr d)"
  by (cases j)
     (auto simp add: ENVELOPE_SCHEMA_def key_ok_def split: if_splits option.splits
           elim: has_type.elims)

lemma Message_deserialize_Inr:
  "Message_deserialize loads deserialize' data = Inr msg \<longleftrightarrow>
     (\<exists>json_message d json_data cls hdr.
           (if isinstance_str data then loads_value loads data else Inr data) = Inr json_message
         \<and> validate json_message ENVELOPE_SCHEMA = Inr ()
         \<and> getitem json_message ''data'' = Inr (JStr d)
         \<and> loads d = Inr json_data
         \<and> deserialize' json_data = Inr cls
         \<and> getitem json_data ''header'' = Inr hdr
         \<and> msg = cls\<lparr>header := Some hdr\<rparr>)"
  unfolding Message_deserialize_def bind_Inr loads_value_Inr
  by auto

text \<open>The codec of the scenario on the texts of the scenario.\<close>

lemma dumps_inner_ex: "dumps_ex inner_ex = wire_inner_ex"
  by (simp add: dumps_ex_def wire_table_def)

lemma loads_inner_ex: "loads_ex wire_inner_ex = Inr inner_ex"
  by (simp add: loads_ex_def wire_table_def)

lemma dumps_envelope_ex:
  "dumps_ex (spec_envelope signature_ex wire_inner_ex) = wire_envelope signature_ex wire_inner_ex"
  by (simp add: dumps_ex_def wire_table_def inner_ex_def ping_ex_def spec_inner_def
      spec_envelope_def)

lemma dumps_signed_envelope_ex:
  "dumps_ex (spec_envelope signature_concat_ex wire_inner_ex) =
     wire_envelope signature_concat_ex wire_inner_ex"
  by (simp add: dumps_ex_def wire_table_def inner_ex_def ping_ex_def spec_inner_def
      spec_envelope_def signature_ex_def signature_concat_ex_def wire_inner_ex_def)

lemma loads_envelope_ex:
  "loads_ex (wire_envelope signature_ex wire_inner_ex) = Inr (spec_envelope signature_ex wire_inner_ex)"
  by (simp add: loads_ex_def wire_table_def wire_envelope_def wire_inner_ex_def wire_ping_ex_def)

lemma loads_ping_ex: "loads_ex wire_ping_ex = Inr ping_ex"
  by (simp add: loads_ex_def wire_table_def wire_inner_ex_def wire_ping_ex_def)

lemma loads_nosig_ex: "loads_ex wire_nosig_ex = Inr (JObj [(''data'', JStr ''x'')])"
  by (simp add: loads_ex_def wire_table_def wire_inner_ex_def wire_ping_ex_def wire_nosig_ex_def
      wire_envelope_def)

lemma inner_ex_eq:
  "inner_ex = spec_inner (JStr ''PathsRequest'') now_ex (JStr (privkey_to_addr_ex k)) body_ex"
  by (simp add: inner_ex_def privkey_to_addr_ex_def)

lemma serialize_data_ex: "PathsRequest_serialize_data request_ex = Inr body_ex"
  by (simp add: PathsRequest_serialize_data_def request_ex_def body_ex_def)

lemma deserialize_from_json_ex: "PathsRequest_deserialize_from_json body_ex = Inr request_ex"
  by (simp add: PathsRequest_deserialize_from_json_def request_ex_def body_ex_def)

lemma reconstructs_ex:
  "reconstructs PathsRequest_serialize_data PathsRequest_deserialize_from_json"
  by (simp add: reconstructs_def PathsRequest_serialize_data_def
      PathsRequest_deserialize_from_json_def)

lemma serialize_full_ex:
  "serialize_full PathsRequest_serialize_data sign_data privkey_to_addr_ex dumps_ex now_ex
     request_ex ''secret'' = Inr (wire_envelope signature_ex wire_inner_ex)"
proof -
  have "msg_type request_ex = JStr ''PathsRequest''"
    by (simp add: request_ex_def)
  then show ?thesis
    using serialize_data_ex
    by (simp add: serialize_full_eq [where t = "''PathsRequest''" and body = body_ex]
        inner_ex_eq [symmetric] dumps_inner_ex sign_data_def signature_ex_def [symmetric]
        dumps_envelope_ex)
qed

section \<open>The signing stub\<close>

text \<open>
  C1. The code at an input where the claim fails. The claim: after signing, changing a
  byte of the stored \<^verbatim>\<open>data\<close> makes the stored signature invalid for it. The code:
  the PathsRequest of the scenario is assembled into an envelope with the signature
  \<^verbatim>\<open>0x1111111111111111111111111111111\<close> over its \<^verbatim>\<open>data\<close>; \<^verbatim>\<open>data\<close> with its first byte
  changed is a different string of the same length, and signing it with the same secret
  gives the stored signature again, as signing any string does. So the stored signature
  is a signature of the changed \<^verbatim>\<open>data\<close> as much as of the original.
\<close>

theorem sign_data_same_for_tampered_data:
  "serialize_full PathsRequest_serialize_data sign_data privkey_to_addr_ex dumps_ex now_ex
     request_ex ''secret'' = Inr (wire_envelope signature_ex wire_inner_ex)
   \<and> tampered_ex \<noteq> wire_inner_ex
   \<and> length tampered_ex = length wire_inner_ex
   \<and> sign_data request_ex ''secret'' wire_inner_ex = signature_ex
   \<and> sign_data request_ex ''secret'' tampered_ex = signature_ex
   \<and> (\<forall>data'. sign_data request_ex ''secret'' data' = signature_ex)"
proof -
  have "tampered_ex \<noteq> wire_inner_ex"
    by (simp add: tampered_ex_def wire_inner_ex_def)
  moreover have "length tampered_ex = length wire_inner_ex"
    by (simp add: tampered_ex_def)
  ultimately show ?thesis
    using serialize_full_ex by (simp add: sign_data_def signature_ex_def)
qed

text \<open>
  C2. \<^verbatim>\<open>sign_data\<close> is a constant function: for any two instances, secrets and payloads
  it returns the same string, \<^verbatim>\<open>0x1111111111111111111111111111111\<close>.
\<close>

theorem sign_data_constant:
  "sign_data self1 private_key1 data1 = sign_data self2 private_key2 data2
   \<and> sign_data self1 private_key1 data1 = ''0x1111111111111111111111111111111''"
  by (simp add: sign_data_def)

section \<open>The setter of the discriminant\<close>

text \<open>
  C8. The code at two inputs where the claim fails. The claim: assigning a value that is
  no string through the setter of \<^verbatim>\<open>type\<close> fails the assertion, and assigning a string
  succeeds and updates the discriminant. The code: on an instance whose \<^verbatim>\<open>_type\<close> is the
  string \<^verbatim>\<open>PathsRequest\<close>, assigning the integer 5 succeeds and the discriminant is 5
  afterwards; on a fresh instance, assigning the string \<^verbatim>\<open>PathsRequest\<close> fails the
  assertion.
\<close>

theorem set_type_checks_stored_value:
  "set_type request_ex (JInt 5) = Inr (request_ex\<lparr>msg_type := JInt 5\<rparr>)
   \<and> get_type (request_ex\<lparr>msg_type := JInt 5\<rparr>) = JInt 5
   \<and> set_type Message_init (JStr ''PathsRequest'') = Inl AssertionError"
  by (simp add: set_type_def get_type_def request_ex_def Message_init_def)

text \<open>
  C9. On a freshly constructed Message, whose \<^verbatim>\<open>_type\<close> is \<^verbatim>\<open>None\<close>, every assignment
  through the setter of \<^verbatim>\<open>type\<close> fails the assertion, whatever the assigned value is, a
  string included: the assertion tests the stored value, not the assigned one.
\<close>

theorem set_type_fresh_fails:
  "set_type Message_init v = Inl AssertionError"
  by (simp add: set_type_def Message_init_def)

section \<open>Assembling an envelope\<close>

text \<open>
  C6. For a Message whose discriminant is a string \<open>t\<close> and whose \<^verbatim>\<open>serialize_data\<close>
  returns \<open>body\<close>, \<^verbatim>\<open>serialize_full\<close> returns the text of an envelope whose \<^verbatim>\<open>data\<close>
  parses to an object with \<^verbatim>\<open>header.type\<close> the discriminant, \<^verbatim>\<open>header.sender\<close> the
  address \<^verbatim>\<open>privkey_to_addr(private_key)\<close> and \<^verbatim>\<open>body\<close> the value of \<^verbatim>\<open>serialize_data\<close>,
  given that \<^verbatim>\<open>json.loads\<close> reads back what \<^verbatim>\<open>json.dumps\<close> printed for that object.
\<close>

theorem serialize_full_inner_object:
  assumes "msg_type self = JStr t"
      and "serialize_data' self = Inr body"
      and "roundtrips dumps loads
             (spec_inner (JStr t) now (JStr (privkey_to_addr private_key)) body)"
  shows "\<exists>data inner hdr.
           serialize_full serialize_data' sign_data' privkey_to_addr dumps now self private_key =
             Inr (dumps (JObj [(''signature'', JStr (sign_data' self private_key data)),
                               (''data'', JStr data)]))
         \<and> loads data = Inr inner
         \<and> getitem inner ''header'' = Inr hdr
         \<and> getitem hdr ''type'' = Inr (get_type self)
         \<and> get_type self = JStr t
         \<and> getitem hdr ''sender'' = Inr (JStr (privkey_to_addr private_key))
         \<and> getitem inner ''body'' = Inr body"
proof -
  let ?hdr = "JObj [(''type'', JStr t), (''timestamp'', JFloat now),
                    (''sender'', JStr (privkey_to_addr private_key))]"
  let ?inner = "spec_inner (JStr t) now (JStr (privkey_to_addr private_key)) body"
  have s: "serialize_full serialize_data' sign_data' privkey_to_addr dumps now self private_key =
      Inr (dumps (JObj [(''signature'', JStr (sign_data' self private_key (dumps ?inner))),
                        (''data'', JStr (dumps ?inner))]))"
    using serialize_full_eq [where self = self and t = t and serialize_data' = serialize_data'
        and body = body] assms(1,2)
    by (simp add: spec_envelope_def)
  have l: "loads (dumps ?inner) = Inr ?inner"
    using assms(3) by (simp add: roundtrips_def)
  have h: "getitem ?inner ''header'' = Inr ?hdr" and b: "getitem ?inner ''body'' = Inr body"
    by (simp_all add: spec_inner_def)
  have t: "getitem ?hdr ''type'' = Inr (get_type self)" and g: "get_type self = JStr t"
    and a: "getitem ?hdr ''sender'' = Inr (JStr (privkey_to_addr private_key))"
    by (simp_all add: assms(1) get_type_def)
  from s l h t g a b show ?thesis by blast
qed

theorem serialize_full_inner_object_witness:
  "msg_type request_ex = JStr ''PathsRequest''
   \<and> PathsRequest_serialize_data request_ex = Inr body_ex
   \<and> roundtrips dumps_ex loads_ex
        (spec_inner (JStr ''PathsRequest'') now_ex (JStr (privkey_to_addr_ex ''secret'')) body_ex)
   \<and> (\<exists>data inner hdr.
           serialize_full PathsRequest_serialize_data sign_data privkey_to_addr_ex dumps_ex
               now_ex request_ex ''secret'' =
             Inr (dumps_ex (JObj [(''signature'', JStr (sign_data request_ex ''secret'' data)),
                                  (''data'', JStr data)]))
         \<and> loads_ex data = Inr inner
         \<and> getitem inner ''header'' = Inr hdr
         \<and> getitem hdr ''type'' = Inr (get_type request_ex)
         \<and> get_type request_ex = JStr ''PathsRequest''
         \<and> getitem hdr ''sender'' = Inr (JStr (privkey_to_addr_ex ''secret''))
         \<and> getitem inner ''body'' = Inr body_ex)"
proof -
  have h1: "msg_type request_ex = JStr ''PathsRequest''"
    by (simp add: request_ex_def)
  have h2: "PathsRequest_serialize_data request_ex = Inr body_ex"
    by (rule serialize_data_ex)
  have h3: "roundtrips dumps_ex loads_ex
        (spec_inner (JStr ''PathsRequest'') now_ex (JStr (privkey_to_addr_ex ''secret'')) body_ex)"
    by (simp add: roundtrips_def inner_ex_eq [symmetric] dumps_inner_ex loads_inner_ex)
  from serialize_full_inner_object
         [where self = request_ex and t = "''PathsRequest''"
            and serialize_data' = PathsRequest_serialize_data and body = body_ex
            and dumps = dumps_ex and loads = loads_ex and now = now_ex
            and privkey_to_addr = privkey_to_addr_ex and private_key = "''secret''"
            and sign_data' = sign_data]
       h1 h2 h3
  show ?thesis by blast
qed

text \<open>
  C7. Whatever the signing method is, the envelope that \<^verbatim>\<open>serialize_full\<close> returns is the
  text of \<^verbatim>\<open>{signature, data}\<close> where \<^verbatim>\<open>signature\<close> is the result of the signing method on
  the very string stored under \<^verbatim>\<open>data\<close>; and that string is the text printed once for
  the inner object, not a second serialization of it.
\<close>

theorem serialize_full_signs_stored_data:
  assumes "serialize_full serialize_data' sign_data' privkey_to_addr dumps now self private_key = Inr s"
  shows "\<exists>data msg_data.
           s = dumps (JObj [(''signature'', JStr (sign_data' self private_key data)),
                            (''data'', JStr data)])
         \<and> data = dumps msg_data"
  using assms
  unfolding serialize_full_def bind_Inr Let_def
  by auto

theorem serialize_full_signs_stored_data_witness:
  "serialize_full PathsRequest_serialize_data sign_concat_ex privkey_to_addr_ex dumps_ex now_ex
       request_ex ''secret'' =
     Inr (wire_envelope signature_concat_ex wire_inner_ex)
   \<and> (\<exists>data msg_data.
         wire_envelope signature_concat_ex wire_inner_ex =
           dumps_ex (JObj [(''signature'', JStr (sign_concat_ex request_ex ''secret'' data)),
                           (''data'', JStr data)])
       \<and> data = dumps_ex msg_data)"
proof -
  have t: "msg_type request_ex = JStr ''PathsRequest''"
    by (simp add: request_ex_def)
  have g: "sign_concat_ex request_ex ''secret'' wire_inner_ex = signature_concat_ex"
    by (simp add: sign_concat_ex_def signature_concat_ex_def)
  have "serialize_full PathsRequest_serialize_data sign_concat_ex privkey_to_addr_ex dumps_ex now_ex
       request_ex ''secret'' =
     Inr (dumps_ex (spec_envelope (sign_concat_ex request_ex ''secret'' (dumps_ex inner_ex))
                                  (dumps_ex inner_ex)))"
    unfolding inner_ex_eq [of "''secret''"]
    using t serialize_data_ex by (rule serialize_full_eq)
  then have h: "serialize_full PathsRequest_serialize_data sign_concat_ex privkey_to_addr_ex
       dumps_ex now_ex request_ex ''secret'' =
     Inr (wire_envelope signature_concat_ex wire_inner_ex)"
    unfolding dumps_inner_ex g dumps_signed_envelope_ex .
  from serialize_full_signs_stored_data [OF h] h show ?thesis by simp
qed

section \<open>Disassembling an envelope: errors\<close>

text \<open>
  C4. When the outer object (given as such, or parsed from the string given) lacks the
  key \<^verbatim>\<open>signature\<close>, lacks the key \<^verbatim>\<open>data\<close>, or has a \<^verbatim>\<open>signature\<close> that is no string,
  \<^verbatim>\<open>Message.deserialize\<close> fails with the SchemaError. That holds for every \<^verbatim>\<open>json.loads\<close>
  and every dispatch function, also for those that would fail on the inner \<^verbatim>\<open>data\<close>:
  the error is the one of the validation, so neither the parsing of \<^verbatim>\<open>data\<close> nor the
  registry nor a decoder has been reached.
\<close>

theorem deserialize_schema_error_first:
  assumes "json_message = JObj kvs"
      and "map_of kvs ''signature'' = None \<or> map_of kvs ''data'' = None
           \<or> (\<exists>v. map_of kvs ''signature'' = Some v \<and> \<not> isinstance_str v)"
      and "data = json_message \<or> (data = JStr s \<and> loads s = Inr json_message)"
  shows "Message_deserialize loads deserialize' data = Inl SchemaError"
proof -
  have v: "validate json_message ENVELOPE_SCHEMA = Inl SchemaError"
    using assms(1,2)
    by (auto simp add: ENVELOPE_SCHEMA_def key_ok_def split: option.splits elim: has_type.elims)
  have "(if isinstance_str data then loads_value loads data else Inr data) = Inr json_message"
    using assms(1,3) by auto
  with v show ?thesis by (simp add: Message_deserialize_def)
qed

theorem deserialize_schema_error_first_witness:
  "map_of [(''data'', JStr ''x'')] ''signature'' = None
   \<and> loads_ex wire_nosig_ex = Inr (JObj [(''data'', JStr ''x'')])
   \<and> loads_ex ''x'' = Inl JSONDecodeError
   \<and> Message_deserialize loads_ex (deserialize registry_ex) (JStr wire_nosig_ex) = Inl SchemaError
   \<and> Message_deserialize loads_ex (deserialize registry_ex) (JObj [(''data'', JStr ''x'')]) =
       Inl SchemaError"
proof -
  have h2: "map_of [(''data'', JStr ''x'')] ''signature'' = None
      \<or> map_of [(''data'', JStr ''x'')] ''data'' = None
      \<or> (\<exists>v. map_of [(''data'', JStr ''x'')] ''signature'' = Some v \<and> \<not> isinstance_str v)"
    by simp
  have h3: "JStr wire_nosig_ex = JObj [(''data'', JStr ''x'')]
      \<or> (JStr wire_nosig_ex = JStr wire_nosig_ex
          \<and> loads_ex wire_nosig_ex = Inr (JObj [(''data'', JStr ''x'')]))"
    by (simp add: loads_nosig_ex)
  have h3': "JObj [(''data'', JStr ''x'')] = JObj [(''data'', JStr ''x'')]
      \<or> (JObj [(''data'', JStr ''x'')] = JStr []
          \<and> loads_ex [] = Inr (JObj [(''data'', JStr ''x'')]))"
    by simp
  have e: "loads_ex ''x'' = Inl JSONDecodeError"
    by (simp add: loads_ex_def wire_table_def wire_inner_ex_def wire_ping_ex_def wire_nosig_ex_def
        wire_envelope_def)
  have h1: "JObj [(''data'', JStr ''x'')] = JObj [(''data'', JStr ''x'')]"
    by simp
  have r: "Message_deserialize loads_ex (deserialize registry_ex) (JStr wire_nosig_ex) =
      Inl SchemaError"
    using h1 h2 h3
    by (rule deserialize_schema_error_first
          [where json_message = "JObj [(''data'', JStr ''x'')]"
             and kvs = "[(''data'', JStr ''x'')]" and s = wire_nosig_ex])
  have r': "Message_deserialize loads_ex (deserialize registry_ex) (JObj [(''data'', JStr ''x'')]) =
      Inl SchemaError"
    using h1 h2 h3'
    by (rule deserialize_schema_error_first
          [where json_message = "JObj [(''data'', JStr ''x'')]"
             and kvs = "[(''data'', JStr ''x'')]" and s = "[]"])
  from r r' loads_nosig_ex e show ?thesis by simp
qed

text \<open>
  C5. For an envelope that passes the validation and whose \<^verbatim>\<open>data\<close> parses to an object
  with a string \<^verbatim>\<open>header.type\<close> that the registry has no decoder for,
  \<^verbatim>\<open>Message.deserialize\<close> fails with UnknownTypeError: no other error and no message.
\<close>

theorem deserialize_unknown_type:
  assumes "validate json_message ENVELOPE_SCHEMA = Inr ()"
      and "data = json_message \<or> (data = JStr s \<and> loads s = Inr json_message)"
      and "getitem json_message ''data'' = Inr (JStr d)"
      and "loads d = Inr json_data"
      and "getitem json_data ''header'' = Inr hdr"
      and "getitem hdr ''type'' = Inr (JStr tag)"
      and "registry tag = None"
  shows "Message_deserialize loads (deserialize registry) data = Inl UnknownTypeError"
proof -
  obtain kvs where "json_message = JObj kvs"
    using validate_Inr [OF assms(1)] by blast
  with assms(2)
  have "(if isinstance_str data then loads_value loads data else Inr data) = Inr json_message"
    by auto
  moreover have "deserialize registry json_data = Inl UnknownTypeError"
    using assms(5-7) by (simp add: deserialize_def)
  ultimately show ?thesis
    using assms(1,3,4) by (simp add: Message_deserialize_def)
qed

theorem deserialize_unknown_type_witness:
  "validate (spec_envelope signature_ex wire_ping_ex) ENVELOPE_SCHEMA = Inr ()
   \<and> getitem (spec_envelope signature_ex wire_ping_ex) ''data'' = Inr (JStr wire_ping_ex)
   \<and> loads_ex wire_ping_ex = Inr ping_ex
   \<and> getitem ping_ex ''header'' =
       Inr (JObj [(''type'', JStr ''Ping''), (''timestamp'', JFloat now_ex),
                  (''sender'', JStr ''0xCCCC'')])
   \<and> registry_ex ''Ping'' = None
   \<and> Message_deserialize loads_ex (deserialize registry_ex) (spec_envelope signature_ex wire_ping_ex) =
       Inl UnknownTypeError"
proof -
  let ?hdr = "JObj [(''type'', JStr ''Ping''), (''timestamp'', JFloat now_ex),
                    (''sender'', JStr ''0xCCCC'')]"
  have h2: "spec_envelope signature_ex wire_ping_ex = spec_envelope signature_ex wire_ping_ex
      \<or> (spec_envelope signature_ex wire_ping_ex = JStr []
          \<and> loads_ex [] = Inr (spec_envelope signature_ex wire_ping_ex))"
    by simp
  have h3: "getitem (spec_envelope signature_ex wire_ping_ex) ''data'' = Inr (JStr wire_ping_ex)"
    by (simp add: spec_envelope_def)
  have h5: "getitem ping_ex ''header'' = Inr ?hdr"
    by (simp add: ping_ex_def spec_inner_def)
  have h6: "getitem ?hdr ''type'' = Inr (JStr ''Ping'')"
    by simp
  have h7: "registry_ex ''Ping'' = None"
    by (simp add: registry_ex_def)
  have h1: "validate (spec_envelope signature_ex wire_ping_ex) ENVELOPE_SCHEMA = Inr ()"
    by (rule validate_envelope)
  from deserialize_unknown_type
         [where json_message = "spec_envelope signature_ex wire_ping_ex"
            and data = "spec_envelope signature_ex wire_ping_ex" and s = "[]"
            and loads = loads_ex and d = wire_ping_ex and json_data = ping_ex and hdr = ?hdr
            and tag = "''Ping''" and registry = registry_ex]
       h1 h2 h3 loads_ping_ex h5 h6 h7
  show ?thesis by blast
qed

section \<open>Disassembling an envelope: the result\<close>

text \<open>
  C10. When \<^verbatim>\<open>Message.deserialize\<close> succeeds, its result is the instance that the
  dispatch function returned for the object parsed from \<^verbatim>\<open>data\<close>, with the attribute
  \<^verbatim>\<open>header\<close> set to the \<^verbatim>\<open>header\<close> of that parsed object: the header is the parsed one,
  whatever header the instance had, and nothing else of the instance changes.
\<close>

theorem deserialize_attaches_parsed_header:
  assumes "Message_deserialize loads deserialize' data = Inr msg"
  shows "\<exists>json_message d json_data cls hdr.
           (if isinstance_str data then loads_value loads data else Inr data) = Inr json_message
         \<and> getitem json_message ''data'' = Inr (JStr d)
         \<and> loads d = Inr json_data
         \<and> deserialize' json_data = Inr cls
         \<and> getitem json_data ''header'' = Inr hdr
         \<and> msg = cls\<lparr>header := Some hdr\<rparr>
         \<and> header msg = Some hdr"
proof -
  from assms obtain json_message d json_data cls hdr where
    "(if isinstance_str data then loads_value loads data else Inr data) = Inr json_message"
    "getitem json_message ''data'' = Inr (JStr d)"
    "loads d = Inr json_data"
    "deserialize' json_data = Inr cls"
    "getitem json_data ''header'' = Inr hdr"
    "msg = cls\<lparr>header := Some hdr\<rparr>"
    unfolding Message_deserialize_Inr by blast
  moreover from this have "header msg = Some hdr" by simp
  ultimately show ?thesis by blast
qed

theorem deserialize_attaches_parsed_header_witness:
  "Message_deserialize loads_ex (\<lambda>json_data. Inr (request_ex\<lparr>header := Some JNull\<rparr>))
       (JStr (wire_envelope signature_ex wire_inner_ex)) =
     Inr (request_ex\<lparr>header := Some header_ex\<rparr>)
   \<and> (\<exists>json_message d json_data cls hdr.
           (if isinstance_str (JStr (wire_envelope signature_ex wire_inner_ex))
            then loads_value loads_ex (JStr (wire_envelope signature_ex wire_inner_ex))
            else Inr (JStr (wire_envelope signature_ex wire_inner_ex))) = Inr json_message
         \<and> getitem json_message ''data'' = Inr (JStr d)
         \<and> loads_ex d = Inr json_data
         \<and> (\<lambda>json_data. Inr (request_ex\<lparr>header := Some JNull\<rparr>)) json_data = Inr cls
         \<and> getitem json_data ''header'' = Inr hdr
         \<and> request_ex\<lparr>header := Some header_ex\<rparr> = cls\<lparr>header := Some hdr\<rparr>
         \<and> header (request_ex\<lparr>header := Some header_ex\<rparr>) = Some hdr)"
proof -
  have d: "getitem (spec_envelope signature_ex wire_inner_ex) ''data'' = Inr (JStr wire_inner_ex)"
    by (simp add: spec_envelope_def)
  have g: "getitem inner_ex ''header'' = Inr header_ex"
    by (simp add: inner_ex_def spec_inner_def header_ex_def)
  have h: "Message_deserialize loads_ex (\<lambda>json_data. Inr (request_ex\<lparr>header := Some JNull\<rparr>))
       (JStr (wire_envelope signature_ex wire_inner_ex)) =
     Inr (request_ex\<lparr>header := Some header_ex\<rparr>)"
    using loads_envelope_ex loads_inner_ex validate_envelope d g
    by (simp add: Message_deserialize_def)
  from deserialize_attaches_parsed_header [OF h] h show ?thesis by blast
qed

text \<open>
  C3. Round trip. Take a Message with the string discriminant \<open>t\<close>, whose
  \<^verbatim>\<open>serialize_data\<close> returns \<open>body\<close>, of a variant that is registered under \<open>t\<close> with a
  decoder that reconstructs the variant from its body fields. \<^verbatim>\<open>serialize_full\<close>
  assembles it into a text that \<^verbatim>\<open>Message.deserialize\<close> accepts, and the Message that
  comes back has the body fields of the original: its \<^verbatim>\<open>serialize_data\<close> returns what
  the \<^verbatim>\<open>serialize_data\<close> of the original returns. It is what the decoder makes of
  exactly that \<open>body\<close>, with a header attached whose \<^verbatim>\<open>type\<close> is \<open>t\<close>. Needed of
  \<^verbatim>\<open>json\<close>: \<^verbatim>\<open>loads\<close> reads back what \<^verbatim>\<open>dumps\<close> printed for the inner object and for the
  envelope.
\<close>

theorem deserialize_serialize_full:
  assumes "msg_type self = JStr t"
      and "serialize_data' self = Inr body"
      and "registry t = Some decoder"
      and "reconstructs serialize_data' decoder"
      and "inner = spec_inner (JStr t) now (JStr (privkey_to_addr private_key)) body"
      and "roundtrips dumps loads inner"
      and "roundtrips dumps loads
             (spec_envelope (sign_data' self private_key (dumps inner)) (dumps inner))"
  shows "\<exists>s r m hdr.
           serialize_full serialize_data' sign_data' privkey_to_addr dumps now self private_key = Inr s
         \<and> Message_deserialize loads (deserialize registry) (JStr s) = Inr r
         \<and> serialize_data' r = serialize_data' self
         \<and> serialize_data' r = Inr body
         \<and> decoder body = Inr m
         \<and> r = m\<lparr>header := Some hdr\<rparr>
         \<and> header r = Some hdr
         \<and> getitem hdr ''type'' = Inr (JStr t)
         \<and> hdr = JObj [(''type'', JStr t), (''timestamp'', JFloat now),
                        (''sender'', JStr (privkey_to_addr private_key))]"
proof -
  let ?env = "spec_envelope (sign_data' self private_key (dumps inner)) (dumps inner)"
  let ?hdr = "JObj [(''type'', JStr t), (''timestamp'', JFloat now),
                    (''sender'', JStr (privkey_to_addr private_key))]"
  from assms(2,4) obtain m where m: "decoder body = Inr m"
    and b: "\<And>h. serialize_data' (m\<lparr>header := h\<rparr>) = Inr body"
    unfolding reconstructs_def by blast
  have s: "serialize_full serialize_data' sign_data' privkey_to_addr dumps now self private_key =
      Inr (dumps ?env)"
    using serialize_full_eq [where self = self and t = t and serialize_data' = serialize_data'
        and body = body] assms(1,2,5)
    by simp
  have o: "loads (dumps ?env) = Inr ?env"
    using assms(7) by (simp add: roundtrips_def)
  have i: "loads (dumps inner) = Inr inner"
    using assms(6) by (simp add: roundtrips_def)
  have d: "getitem ?env ''data'' = Inr (JStr (dumps inner))"
    by (simp add: spec_envelope_def)
  have h: "getitem inner ''header'' = Inr ?hdr"
    by (simp add: assms(5) spec_inner_def)
  have r: "deserialize registry inner = Inr m"
    using assms(3) m by (simp add: deserialize_def assms(5) spec_inner_def)
  have e: "Message_deserialize loads (deserialize registry) (JStr (dumps ?env)) =
      Inr (m\<lparr>header := Some ?hdr\<rparr>)"
    unfolding Message_deserialize_def using o validate_envelope d i r h by simp
  have f: "serialize_data' (m\<lparr>header := Some ?hdr\<rparr>) = Inr body"
    by (rule b)
  have g: "serialize_data' (m\<lparr>header := Some ?hdr\<rparr>) = serialize_data' self"
    using f assms(2) by simp
  have k: "header (m\<lparr>header := Some ?hdr\<rparr>) = Some ?hdr"
    by simp
  have t: "getitem ?hdr ''type'' = Inr (JStr t)"
    by simp
  from s e g f m k t show ?thesis by blast
qed

theorem deserialize_serialize_full_witness:
  "msg_type request_ex = JStr ''PathsRequest''
   \<and> PathsRequest_serialize_data request_ex = Inr body_ex
   \<and> registry_ex ''PathsRequest'' = Some PathsRequest_deserialize_from_json
   \<and> reconstructs PathsRequest_serialize_data PathsRequest_deserialize_from_json
   \<and> roundtrips dumps_ex loads_ex inner_ex
   \<and> roundtrips dumps_ex loads_ex
        (spec_envelope (sign_data request_ex ''secret'' (dumps_ex inner_ex)) (dumps_ex inner_ex))
   \<and> (\<exists>s r m hdr.
         serialize_full PathsRequest_serialize_data sign_data privkey_to_addr_ex dumps_ex
             now_ex request_ex ''secret'' = Inr s
       \<and> Message_deserialize loads_ex (deserialize registry_ex) (JStr s) = Inr r
       \<and> PathsRequest_serialize_data r = PathsRequest_serialize_data request_ex
       \<and> PathsRequest_serialize_data r = Inr body_ex
       \<and> PathsRequest_deserialize_from_json body_ex = Inr m
       \<and> r = m\<lparr>header := Some hdr\<rparr>
       \<and> header r = Some hdr
       \<and> getitem hdr ''type'' = Inr (JStr ''PathsRequest'')
       \<and> hdr = JObj [(''type'', JStr ''PathsRequest''), (''timestamp'', JFloat now_ex),
                      (''sender'', JStr (privkey_to_addr_ex ''secret''))])"
proof -
  have h1: "msg_type request_ex = JStr ''PathsRequest''"
    by (simp add: request_ex_def)
  have h3: "registry_ex ''PathsRequest'' = Some PathsRequest_deserialize_from_json"
    by (simp add: registry_ex_def)
  have h6: "roundtrips dumps_ex loads_ex inner_ex"
    by (simp add: roundtrips_def dumps_inner_ex loads_inner_ex)
  have h7: "roundtrips dumps_ex loads_ex
        (spec_envelope (sign_data request_ex ''secret'' (dumps_ex inner_ex)) (dumps_ex inner_ex))"
    by (simp add: roundtrips_def dumps_inner_ex sign_data_def signature_ex_def [symmetric]
        dumps_envelope_ex loads_envelope_ex)
  from deserialize_serialize_full
         [where self = request_ex and t = "''PathsRequest''"
            and serialize_data' = PathsRequest_serialize_data and body = body_ex
            and registry = registry_ex and decoder = PathsRequest_deserialize_from_json
            and inner = inner_ex and now = now_ex
            and privkey_to_addr = privkey_to_addr_ex and private_key = "''secret''"
            and dumps = dumps_ex and loads = loads_ex and sign_data' = sign_data]
       h1 serialize_data_ex h3 reconstructs_ex inner_ex_eq [of "''secret''"] h6 h7
  show ?thesis by blast
qed

end
